theory Spec2Isabelle
  imports Main
begin

section \<open>The smart-home hub of smartDevice.js\<close>

text \<open>
  The program is one JavaScript file: a \<open>Subject\<close> with a list of observers, an abstract
  \<open>Observer\<close>, a device factory, three device classes built on \<open>SmartDevice\<close>, a proxy, a
  scheduler, an automation engine and the hub \<open>SmartHomeSystem\<close> that extends \<open>Subject\<close>.

  Objects are mutable and shared: the hub's \<open>devices\<close> array, its inherited \<open>observers\<close>
  array and every scheduled task hold references to the same device objects. The model
  therefore keeps the device objects in a store (\<open>heap\<close>, a list; a reference is an index)
  and the arrays as lists of references. Exceptions are values of type \<open>error\<close>; a call
  returns the exception it raised, if any, together with the state it left behind, since a
  JavaScript \<open>throw\<close> does not undo the assignments made before it. \<open>console.log\<close> appends
  a line to the field \<open>console\<close>.

  Identifiers are modelled as integers or strings, temperatures as integers (the model and
  JavaScript's doubles agree on integers of magnitude up to \<open>2^53\<close>, which is also the
  range in which numbers print as plain decimals), strings as lists of 8-bit code units
  (so the white space \<open>parseInt\<close> skips is the white space below U+0100).
\<close>

subsection \<open>Values\<close>

datatype ident = IdNum int | IdStr string

datatype error =
    UnknownDeviceType        \<comment> \<open>\<open>new Error('Unknown device type')\<close>\<close>
  | UpdateNotImplemented     \<comment> \<open>the string \<open>'Observer update method should be implemented'\<close>\<close>
  | NotAFunction             \<comment> \<open>\<open>TypeError\<close>: the method does not exist on the object\<close>

record event =
  ev_action :: string
  deviceId :: ident

subsection \<open>Rendering numbers and joining strings\<close>

definition digit_char :: "nat \<Rightarrow> char" where
  "digit_char n = ''0123456789'' ! (n mod 10)"

fun show_nat :: "nat \<Rightarrow> string" where
  "show_nat n = (if n < 10 then [digit_char n] else show_nat (n div 10) @ [digit_char n])"

declare show_nat.simps [simp del]

definition show_int :: "int \<Rightarrow> string" where
  "show_int k = (if k < 0 then CHR ''-'' # show_nat (nat (- k)) else show_nat (nat k))"

fun show_ident :: "ident \<Rightarrow> string" where
  "show_ident (IdNum k) = show_int k"
| "show_ident (IdStr s) = s"

text \<open>A field that holds \<open>undefined\<close> renders as the word.\<close>

fun show_number_opt :: "int option \<Rightarrow> string" where
  "show_number_opt None = ''undefined''"
| "show_number_opt (Some k) = show_int k"

fun join :: "string \<Rightarrow> string list \<Rightarrow> string" where
  "join sep [] = []"
| "join sep [x] = x"
| "join sep (x # y # ys) = x @ sep @ join sep (y # ys)"

subsection \<open>Devices\<close>

datatype cls = Light | Thermostat | DoorLock

record SmartDevice =
  klass :: cls                      \<comment> \<open>the object's class, which selects its methods\<close>
  dev_id :: ident                   \<comment> \<open>\<open>this.id\<close>\<close>
  dev_type :: string                \<comment> \<open>\<open>this.type\<close>\<close>
  status :: string                  \<comment> \<open>\<open>this.status\<close>\<close>
  temperature :: "int option"       \<comment> \<open>\<open>this.temperature\<close>; \<open>None\<close> is \<open>undefined\<close>\<close>

definition SmartDevice_new :: "cls \<Rightarrow> ident \<Rightarrow> string \<Rightarrow> SmartDevice" where
  "SmartDevice_new k i t =
     \<lparr>klass = k, dev_id = i, dev_type = t, status = ''off'', temperature = None\<rparr>"

definition Light_new :: "ident \<Rightarrow> SmartDevice" where
  "Light_new i = SmartDevice_new Light i ''Light''"

definition Thermostat_new :: "ident \<Rightarrow> int \<Rightarrow> SmartDevice" where
  "Thermostat_new i temp = (SmartDevice_new Thermostat i ''Thermostat'')\<lparr>temperature := Some temp\<rparr>"

definition DoorLock_new :: "ident \<Rightarrow> SmartDevice" where
  "DoorLock_new i = (SmartDevice_new DoorLock i ''Door'')\<lparr>status := ''locked''\<rparr>"

definition SmartDevice_turnOn :: "SmartDevice \<Rightarrow> SmartDevice" where
  "SmartDevice_turnOn d = d\<lparr>status := ''on''\<rparr>"

definition SmartDevice_turnOff :: "SmartDevice \<Rightarrow> SmartDevice" where
  "SmartDevice_turnOff d = d\<lparr>status := ''off''\<rparr>"

definition lock :: "SmartDevice \<Rightarrow> SmartDevice" where
  "lock d = d\<lparr>status := ''locked''\<rparr>"

definition unlock :: "SmartDevice \<Rightarrow> SmartDevice" where
  "unlock d = d\<lparr>status := ''unlocked''\<rparr>"

definition getStatus :: "SmartDevice \<Rightarrow> string" where
  "getStatus d =
     (case klass d of
        Thermostat \<Rightarrow>
          ''Thermostat '' @ show_ident (dev_id d) @ '' is set to ''
            @ show_number_opt (temperature d) @ '' degrees.''
      | DoorLock \<Rightarrow> ''Door '' @ show_ident (dev_id d) @ '' is '' @ status d
      | Light \<Rightarrow> dev_type d @ '' '' @ show_ident (dev_id d) @ '' is '' @ status d)"

text \<open>
  No device class overrides \<open>Observer.update\<close>, so the inherited body runs: it throws.
\<close>

definition update :: "SmartDevice \<Rightarrow> event \<Rightarrow> error option" where
  "update d data = Some UpdateNotImplemented"

subsection \<open>The factory\<close>

definition createDevice :: "string \<Rightarrow> ident \<Rightarrow> error + SmartDevice" where
  "createDevice type i =
     (if type = ''light'' then Inr (Light_new i)
      else if type = ''thermostat'' then Inr (Thermostat_new i 70)
      else if type = ''door'' then Inr (DoorLock_new i)
      else Inl UnknownDeviceType)"

subsection \<open>Conditions of automation rules\<close>

text \<open>\<open>String.prototype.split(' ')\<close>: the pieces between single spaces, empty ones kept.\<close>

fun split_space :: "string \<Rightarrow> string list" where
  "split_space [] = [[]]"
| "split_space (c # cs) =
     (if c = CHR '' '' then [] # split_space cs
      else (case split_space cs of [] \<Rightarrow> [[c]] | t # ts \<Rightarrow> (c # t) # ts))"

text \<open>Array destructuring: the element at the position, or \<open>undefined\<close> (\<open>None\<close>).\<close>

fun element :: "'a list \<Rightarrow> nat \<Rightarrow> 'a option" where
  "element [] n = None"
| "element (x # xs) 0 = Some x"
| "element (x # xs) (Suc n) = element xs n"

text \<open>
  \<open>parseInt\<close> with no radix, after ECMAScript: leading white space is dropped, a sign is
  read, a prefix \<open>0x\<close> or \<open>0X\<close> selects radix 16, the longest run of digits is taken, and
  the result is \<open>NaN\<close> (\<open>None\<close>) when that run is empty.
\<close>

definition isStrWhiteSpaceChar :: "char \<Rightarrow> bool" where
  "isStrWhiteSpaceChar c = ((of_char c :: nat) \<in> {9, 10, 11, 12, 13, 32, 160})"

definition digit_value :: "char \<Rightarrow> nat option" where
  "digit_value c =
     (let n = (of_char c :: nat)
      in if 48 \<le> n \<and> n \<le> 57 then Some (n - 48)
         else if 97 \<le> n \<and> n \<le> 122 then Some (n - 87)
         else if 65 \<le> n \<and> n \<le> 90 then Some (n - 55)
         else None)"

definition radix_digit :: "nat \<Rightarrow> char \<Rightarrow> bool" where
  "radix_digit R c = (case digit_value c of None \<Rightarrow> False | Some d \<Rightarrow> d < R)"

definition radix_value :: "nat \<Rightarrow> string \<Rightarrow> nat" where
  "radix_value R Z =
     foldl (\<lambda>a c. a * R + (case digit_value c of None \<Rightarrow> 0 | Some d \<Rightarrow> d)) 0 Z"

definition parseInt :: "string \<Rightarrow> int option" where
  "parseInt inputString =
     (let S = dropWhile isStrWhiteSpaceChar inputString;
          sign = (if take 1 S = ''-'' then - 1 else 1);
          S1 = (if take 1 S = ''+'' \<or> take 1 S = ''-'' then drop 1 S else S);
          hex = (take 2 S1 = ''0x'' \<or> take 2 S1 = ''0X'');
          R = (if hex then 16 else 10);
          S2 = (if hex then drop 2 S1 else S1);
          Z = takeWhile (radix_digit R) S2
      in if Z = [] then None else Some (sign * int (radix_value R Z)))"

text \<open>\<open>parseInt\<close> first converts its argument to a string; \<open>undefined\<close> becomes the word.\<close>

fun parseInt_value :: "string option \<Rightarrow> int option" where
  "parseInt_value None = parseInt ''undefined''"
| "parseInt_value (Some v) = parseInt v"

text \<open>\<open>a > b\<close> on numbers: false as soon as one side is \<open>undefined\<close> or \<open>NaN\<close>.\<close>

fun js_greater :: "int option \<Rightarrow> int option \<Rightarrow> bool" where
  "js_greater (Some a) (Some b) = (b < a)"
| "js_greater a b = False"

subsection \<open>Scheduler and automation\<close>

record task =
  device :: nat          \<comment> \<open>a reference to the device object\<close>
  time :: string
  command :: string

record trigger =
  condition :: string
  action :: string

text \<open>The test of the \<open>if\<close> in \<open>Automation.checkTriggers\<close>, for one trigger.\<close>

definition trigger_met :: "SmartDevice \<Rightarrow> trigger \<Rightarrow> bool" where
  "trigger_met thermostat t =
     (let parts = split_space (condition t);
          property = element parts 0;
          operator = element parts 1;
          val = element parts 2
      in property = Some ''temperature'' \<and> operator = Some ''>''
         \<and> js_greater (temperature thermostat) (parseInt_value val))"

definition trigger_line :: "trigger \<Rightarrow> string" where
  "trigger_line t = ''Trigger met: '' @ condition t @ ''. Executing: '' @ action t"

text \<open>\<open>Automation.checkTriggers\<close>: the lines the \<open>forEach\<close> prints, in order.\<close>

fun Automation_checkTriggers :: "SmartDevice \<Rightarrow> trigger list \<Rightarrow> string list" where
  "Automation_checkTriggers thermostat [] = []"
| "Automation_checkTriggers thermostat (t # ts) =
     (if trigger_met thermostat t then [trigger_line t] else [])
       @ Automation_checkTriggers thermostat ts"

subsection \<open>The hub\<close>

record SmartHomeSystem =
  heap :: "SmartDevice list"          \<comment> \<open>the device objects; a reference is an index\<close>
  observers :: "nat list"             \<comment> \<open>\<open>Subject.observers\<close>\<close>
  devices :: "nat list"               \<comment> \<open>\<open>this.devices\<close>\<close>
  scheduledTasks :: "task list"       \<comment> \<open>\<open>this.scheduler.scheduledTasks\<close>\<close>
  triggers :: "trigger list"          \<comment> \<open>\<open>this.automation.triggers\<close>\<close>
  console :: "string list"            \<comment> \<open>the lines written by \<open>console.log\<close>\<close>

definition SmartHomeSystem_new :: SmartHomeSystem where
  "SmartHomeSystem_new =
     \<lparr>heap = [], observers = [], devices = [], scheduledTasks = [], triggers = [],
      console = []\<rparr>"

definition addObserver :: "nat \<Rightarrow> SmartHomeSystem \<Rightarrow> SmartHomeSystem" where
  "addObserver r s = s\<lparr>observers := observers s @ [r]\<rparr>"

definition removeObserver :: "nat \<Rightarrow> SmartHomeSystem \<Rightarrow> SmartHomeSystem" where
  "removeObserver r s = s\<lparr>observers := filter (\<lambda>obs. obs \<noteq> r) (observers s)\<rparr>"

text \<open>\<open>notify\<close>: the \<open>forEach\<close> stops at the first observer whose \<open>update\<close> throws.\<close>

fun notify_each :: "SmartDevice list \<Rightarrow> nat list \<Rightarrow> event \<Rightarrow> error option" where
  "notify_each h [] data = None"
| "notify_each h (r # rs) data =
     (case update (h ! r) data of Some e \<Rightarrow> Some e | None \<Rightarrow> notify_each h rs data)"

definition notify :: "event \<Rightarrow> SmartHomeSystem \<Rightarrow> error option" where
  "notify data s = notify_each (heap s) (observers s) data"

text \<open>\<open>this.devices.find(d => d.id === deviceId)\<close>: the first reference that matches.\<close>

definition find_by_id :: "SmartHomeSystem \<Rightarrow> ident \<Rightarrow> nat option" where
  "find_by_id s i = List.find (\<lambda>r. dev_id (heap s ! r) = i) (devices s)"

definition find_thermostat :: "SmartHomeSystem \<Rightarrow> nat option" where
  "find_thermostat s = List.find (\<lambda>r. dev_type (heap s ! r) = ''Thermostat'') (devices s)"

definition addDevice :: "string \<Rightarrow> ident \<Rightarrow> SmartHomeSystem \<Rightarrow> error option \<times> SmartHomeSystem" where
  "addDevice type i s =
     (case createDevice type i of
        Inl e \<Rightarrow> (Some e, s)
      | Inr d \<Rightarrow>
          (let r = length (heap s);
               s1 = s\<lparr>heap := heap s @ [d]\<rparr>;
               s2 = s1\<lparr>devices := devices s1 @ [r]\<rparr>
           in (None, addObserver r s2)))"

definition turnOn :: "ident \<Rightarrow> SmartHomeSystem \<Rightarrow> error option \<times> SmartHomeSystem" where
  "turnOn i s =
     (case find_by_id s i of
        None \<Rightarrow> (None, s)
      | Some r \<Rightarrow>
          (let s1 = s\<lparr>heap := (heap s)[r := SmartDevice_turnOn (heap s ! r)]\<rparr>
           in (notify \<lparr>ev_action = ''turnOn'', deviceId = i\<rparr> s1, s1)))"

definition turnOff :: "ident \<Rightarrow> SmartHomeSystem \<Rightarrow> error option \<times> SmartHomeSystem" where
  "turnOff i s =
     (case find_by_id s i of
        None \<Rightarrow> (None, s)
      | Some r \<Rightarrow>
          (let s1 = s\<lparr>heap := (heap s)[r := SmartDevice_turnOff (heap s ! r)]\<rparr>
           in (notify \<lparr>ev_action = ''turnOff'', deviceId = i\<rparr> s1, s1)))"

definition Scheduler_setSchedule :: "nat \<Rightarrow> string \<Rightarrow> string \<Rightarrow> SmartHomeSystem \<Rightarrow> SmartHomeSystem" where
  "Scheduler_setSchedule r tm cmd s =
     s\<lparr>scheduledTasks := scheduledTasks s @ [\<lparr>device = r, time = tm, command = cmd\<rparr>],
       console := console s @
         [''Scheduled '' @ cmd @ '' for device '' @ show_ident (dev_id (heap s ! r))
            @ '' at '' @ tm]\<rparr>"

definition setSchedule ::
  "ident \<Rightarrow> string \<Rightarrow> string \<Rightarrow> SmartHomeSystem \<Rightarrow> error option \<times> SmartHomeSystem" where
  "setSchedule i tm cmd s =
     (case find_by_id s i of
        None \<Rightarrow> (None, s)
      | Some r \<Rightarrow> (None, Scheduler_setSchedule r tm cmd s))"

definition addTrigger :: "string \<Rightarrow> string \<Rightarrow> SmartHomeSystem \<Rightarrow> error option \<times> SmartHomeSystem" where
  "addTrigger c a s =
     (None, s\<lparr>triggers := triggers s @ [\<lparr>condition = c, action = a\<rparr>],
              console := console s @ [''Added trigger: '' @ c @ '' -> '' @ a]\<rparr>)"

definition checkTriggers :: "SmartHomeSystem \<Rightarrow> error option \<times> SmartHomeSystem" where
  "checkTriggers s =
     (case find_thermostat s of
        None \<Rightarrow> (None, s)
      | Some r \<Rightarrow>
          (None, s\<lparr>console := console s @ Automation_checkTriggers (heap s ! r) (triggers s)\<rparr>))"

definition getStatusReport :: "SmartHomeSystem \<Rightarrow> string" where
  "getStatusReport s = join [CHR 0x0A] (map (\<lambda>r. getStatus (heap s ! r)) (devices s))"

definition getSchedule :: "SmartHomeSystem \<Rightarrow> task list" where
  "getSchedule s = scheduledTasks s"

subsection \<open>Calls and runs\<close>

text \<open>
  The methods of the hub, those it inherits from \<open>Subject\<close> included, the methods of a
  device object and the methods of a \<open>DeviceProxy\<close> wrapped around it, as values, so that
  sequences of calls can be run. The observers a caller registers by hand are device
  objects of the store, as a caller can only pass an object that exists.
\<close>

datatype hub_call =
    AddDevice string ident
  | TurnOn ident
  | TurnOff ident
  | SetSchedule ident string string
  | AddTrigger string string
  | CheckTriggers
  | GetStatusReport
  | GetSchedule
  | AddObserver nat            \<comment> \<open>inherited from \<open>Subject\<close>; the observer is a device object\<close>
  | RemoveObserver nat         \<comment> \<open>inherited from \<open>Subject\<close>\<close>
  | Notify event               \<comment> \<open>inherited from \<open>Subject\<close>\<close>

datatype dev_call =
    DevTurnOn
  | DevTurnOff
  | DevGetStatus
  | DevLock
  | DevUnlock
  | DevSetTemperature int
  | DevUpdate event
  | ProxyTurnOn
  | ProxyTurnOff
  | ProxyGetStatus

datatype call = Hub hub_call | Dev nat dev_call

fun exec_hub :: "hub_call \<Rightarrow> SmartHomeSystem \<Rightarrow> error option \<times> SmartHomeSystem" where
  "exec_hub (AddDevice type i) s = addDevice type i s"
| "exec_hub (TurnOn i) s = turnOn i s"
| "exec_hub (TurnOff i) s = turnOff i s"
| "exec_hub (SetSchedule i tm cmd) s = setSchedule i tm cmd s"
| "exec_hub (AddTrigger c a) s = addTrigger c a s"
| "exec_hub CheckTriggers s = checkTriggers s"
| "exec_hub GetStatusReport s = (None, s)"
| "exec_hub GetSchedule s = (None, s)"
| "exec_hub (AddObserver r) s = (if r < length (heap s) then (None, addObserver r s) else (None, s))"
| "exec_hub (RemoveObserver r) s = (None, removeObserver r s)"
| "exec_hub (Notify data) s = (notify data s, s)"

definition proxy_line :: "SmartDevice \<Rightarrow> string" where
  "proxy_line d = ''Accessing device '' @ show_ident (dev_id d) @ '' via proxy...''"

text \<open>
  A method call on a device object: the exception raised, the object afterwards and the
  lines printed. \<open>lock\<close> and \<open>unlock\<close> exist on a \<open>DoorLock\<close> only and \<open>setTemperature\<close> on
  a \<open>Thermostat\<close> only; calling a missing method is a \<open>TypeError\<close>.
\<close>

fun exec_dev :: "dev_call \<Rightarrow> SmartDevice \<Rightarrow> error option \<times> SmartDevice \<times> string list" where
  "exec_dev DevTurnOn d = (None, SmartDevice_turnOn d, [])"
| "exec_dev DevTurnOff d = (None, SmartDevice_turnOff d, [])"
| "exec_dev DevGetStatus d = (None, d, [])"
| "exec_dev DevLock d =
     (if klass d = DoorLock then (None, lock d, []) else (Some NotAFunction, d, []))"
| "exec_dev DevUnlock d =
     (if klass d = DoorLock then (None, unlock d, []) else (Some NotAFunction, d, []))"
| "exec_dev (DevSetTemperature temp) d =
     (if klass d = Thermostat
      then (None, d\<lparr>temperature := Some temp\<rparr>,
            [''Thermostat '' @ show_ident (dev_id d) @ '' set to '' @ show_int temp
               @ '' degrees.''])
      else (Some NotAFunction, d, []))"
| "exec_dev (DevUpdate data) d = (update d data, d, [])"
| "exec_dev ProxyTurnOn d = (None, SmartDevice_turnOn d, [proxy_line d])"
| "exec_dev ProxyTurnOff d = (None, SmartDevice_turnOff d, [proxy_line d])"
| "exec_dev ProxyGetStatus d = (None, d, [])"

text \<open>
  One call on the whole state. A caller can only hold a reference to an object that
  exists; a call through any other index is given no effect.
\<close>

fun exec :: "call \<Rightarrow> SmartHomeSystem \<Rightarrow> error option \<times> SmartHomeSystem" where
  "exec (Hub c) s = exec_hub c s"
| "exec (Dev r c) s =
     (if r < length (heap s)
      then (case exec_dev c (heap s ! r) of
              (e, d, out) \<Rightarrow> (e, s\<lparr>heap := (heap s)[r := d], console := console s @ out\<rparr>))
      else (None, s))"

text \<open>
  A script is a sequence of calls with no \<open>try\<close>: it stops at the first exception.
\<close>

fun run_script :: "call list \<Rightarrow> SmartHomeSystem \<Rightarrow> error option \<times> SmartHomeSystem" where
  "run_script [] s = (None, s)"
| "run_script (c # cs) s =
     (case exec c s of (Some e, s1) \<Rightarrow> (Some e, s1) | (None, s1) \<Rightarrow> run_script cs s1)"

text \<open>
  A caller that catches every exception and goes on: the state after each call is the one
  the call left behind, whether it threw or not. The state in which a script stops is the
  state after running a prefix of it in this way.
\<close>

fun run_all :: "call list \<Rightarrow> SmartHomeSystem \<Rightarrow> SmartHomeSystem" where
  "run_all [] s = s"
| "run_all (c # cs) s = run_all cs (snd (exec c s))"

text \<open>
  The object whose inherited \<open>turnOn\<close> or \<open>turnOff\<close> a call runs, if it runs one.
\<close>

fun switch_target :: "call \<Rightarrow> SmartHomeSystem \<Rightarrow> nat option" where
  "switch_target (Hub (TurnOn i)) s = find_by_id s i"
| "switch_target (Hub (TurnOff i)) s = find_by_id s i"
| "switch_target (Hub c) s = None"
| "switch_target (Dev r DevTurnOn) s = Some r"
| "switch_target (Dev r DevTurnOff) s = Some r"
| "switch_target (Dev r ProxyTurnOn) s = Some r"
| "switch_target (Dev r ProxyTurnOff) s = Some r"
| "switch_target (Dev r c) s = None"

fun spares :: "nat \<Rightarrow> call list \<Rightarrow> SmartHomeSystem \<Rightarrow> bool" where
  "spares r [] s = True"
| "spares r (c # cs) s = (switch_target c s \<noteq> Some r \<and> spares r cs (snd (exec c s)))"

text \<open>The example at the end of the file, up to its last call.\<close>

definition example_usage :: "call list" where
  "example_usage =
     [Hub (AddDevice ''light'' (IdNum 1)),
      Hub (AddDevice ''thermostat'' (IdNum 2)),
      Hub (AddDevice ''door'' (IdNum 3)),
      Hub (TurnOn (IdNum 1)),
      Hub (SetSchedule (IdNum 2) ''06:00'' ''Turn On''),
      Hub (AddTrigger ''temperature > 75'' ''turnOff(1)''),
      Hub CheckTriggers]"

text \<open>The hub after the three \<open>addDevice\<close> calls of the example.\<close>

definition three_devices :: SmartHomeSystem where
  "three_devices = run_all (take 3 example_usage) SmartHomeSystem_new"

text \<open>The calls that reach \<open>Subject\<close>'s list of observers directly.\<close>

fun observer_call :: "call \<Rightarrow> bool" where
  "observer_call (Hub (AddObserver r)) = True"
| "observer_call (Hub (RemoveObserver r)) = True"
| "observer_call c = False"

text \<open>
  Hubs with a light and two thermostats and the rule \<open>temperature > 75\<close>: the thermostats
  are set to 90 and 60 degrees, in one hub in this order and in the other the cooler one
  first. A third hub has the rule, a light and a door, and no thermostat.
\<close>

definition warm_first :: SmartHomeSystem where
  "warm_first =
     run_all [Hub (AddDevice ''light'' (IdNum 1)),
              Hub (AddDevice ''thermostat'' (IdNum 2)),
              Hub (AddDevice ''thermostat'' (IdNum 3)),
              Dev 1 (DevSetTemperature 90),
              Dev 2 (DevSetTemperature 60),
              Hub (AddTrigger ''temperature > 75'' ''turnOff(1)'')] SmartHomeSystem_new"

definition cool_first :: SmartHomeSystem where
  "cool_first =
     run_all [Hub (AddDevice ''light'' (IdNum 1)),
              Hub (AddDevice ''thermostat'' (IdNum 2)),
              Hub (AddDevice ''thermostat'' (IdNum 3)),
              Dev 1 (DevSetTemperature 60),
              Dev 2 (DevSetTemperature 90),
              Hub (AddTrigger ''temperature > 75'' ''turnOff(1)'')] SmartHomeSystem_new"

definition no_thermostat :: SmartHomeSystem where
  "no_thermostat =
     run_all [Hub (AddDevice ''light'' (IdNum 1)),
              Hub (AddDevice ''door'' (IdNum 3)),
              Hub (AddTrigger ''temperature > 75'' ''turnOff(1)'')] SmartHomeSystem_new"

text \<open>A door lock is in order when it exists and its status is one of the two lock states.\<close>

definition door_status_ok :: "nat \<Rightarrow> SmartHomeSystem \<Rightarrow> bool" where
  "door_status_ok r s =
     (r < length (heap s) \<and> klass (heap s ! r) = DoorLock
      \<and> status (heap s ! r) \<in> {''locked'', ''unlocked''})"

section \<open>Properties\<close>

subsection \<open>Auxiliary facts\<close>

lemma element_nth: "element xs n = (if n < length xs then Some (xs ! n) else None)"
  by (induction xs n rule: element.induct) simp_all

lemma element_take: "n < k \<Longrightarrow> element (take k xs) n = element xs n"
  by (simp add: element_nth)

lemma parseInt_undefined: "parseInt ''undefined'' = None"
  by (simp add: parseInt_def isStrWhiteSpaceChar_def radix_digit_def digit_value_def)


lemma find_by_id_absent:
  "\<forall>r \<in> set (devices s). dev_id (heap s ! r) \<noteq> i \<Longrightarrow> find_by_id s i = None"
  by (simp add: find_by_id_def find_None_iff)

lemma find_first_match:
  "\<forall>p \<in> set pre. \<not> P p \<Longrightarrow> P r \<Longrightarrow> List.find P (pre @ r # post) = Some r"
  by (induction pre) simp_all

lemma addDevice_door:
  "addDevice ''door'' i s
     = (None, s\<lparr>heap := heap s @ [DoorLock_new i], devices := devices s @ [length (heap s)],
                observers := observers s @ [length (heap s)]\<rparr>)"
  by (simp add: addDevice_def createDevice_def addObserver_def Let_def)

subsection \<open>The example run\<close>

text \<open>
  C1. The claim: from an empty hub the seven calls of the example complete, the report
  then has three lines (Light 1 on, Thermostat 2 at 70 degrees, Door 3 locked), the
  scheduler holds one task, for device 2, and no rule fires.

  The code does not get that far. \<open>turnOn(1)\<close> finds the light, switches it on and calls
  \<open>notify\<close>, which calls \<open>update\<close> on the first observer; no device class overrides
  \<open>Observer.update\<close>, whose body throws. The run stops at the fourth call with that
  exception, with no task scheduled and no trigger added.
\<close>

theorem example_usage_stops_at_turnOn:
  "run_script (take 3 example_usage) SmartHomeSystem_new = (None, three_devices)
   \<and> fst (exec (Hub (TurnOn (IdNum 1))) three_devices) = Some UpdateNotImplemented
   \<and> run_script example_usage SmartHomeSystem_new
       = (Some UpdateNotImplemented, snd (exec (Hub (TurnOn (IdNum 1))) three_devices))
   \<and> scheduledTasks (snd (run_script example_usage SmartHomeSystem_new)) = []
   \<and> triggers (snd (run_script example_usage SmartHomeSystem_new)) = []"
  by code_simp

text \<open>
  Were every call wrapped in a \<open>try\<close>, the states the calls leave behind would add up to
  what the claim describes.
\<close>

lemma example_usage_with_exceptions_caught:
  "getStatusReport (run_all example_usage SmartHomeSystem_new)
     = ''Light 1 is on'' @ [CHR 0x0A] @ ''Thermostat 2 is set to 70 degrees.'' @ [CHR 0x0A]
         @ ''Door 3 is locked''
   \<and> map device (getSchedule (run_all example_usage SmartHomeSystem_new)) = [1]
   \<and> dev_id (heap (run_all example_usage SmartHomeSystem_new) ! 1) = IdNum 2
   \<and> Automation_checkTriggers (heap (run_all example_usage SmartHomeSystem_new) ! 1)
        (triggers (run_all example_usage SmartHomeSystem_new)) = []"
  by code_simp

subsection \<open>The factory and \<open>addDevice\<close>\<close>

text \<open>
  C2. For every kind token other than \<open>light\<close>, \<open>thermostat\<close> and \<open>door\<close>, and every
  identifier, \<open>createDevice\<close> fails with the unknown-device-type error and returns no
  device, and \<open>addDevice\<close> hands that error on to its caller.
\<close>

theorem createDevice_unknown_kind:
  assumes "type \<notin> {''light'', ''thermostat'', ''door''}"
  shows "createDevice type i = Inl UnknownDeviceType
         \<and> fst (addDevice type i s) = Some UnknownDeviceType"
  using assms by (simp add: createDevice_def addDevice_def)

text \<open>The token \<open>fan\<close> on the fresh hub.\<close>

theorem createDevice_unknown_kind_witness:
  "''fan'' \<notin> {''light'', ''thermostat'', ''door''}
   \<and> createDevice ''fan'' (IdNum 4) = Inl UnknownDeviceType
   \<and> fst (addDevice ''fan'' (IdNum 4) SmartHomeSystem_new) = Some UnknownDeviceType"
  using createDevice_unknown_kind [of "''fan''" "IdNum 4" SmartHomeSystem_new] by simp

text \<open>
  C10. When \<open>addDevice\<close> fails on an unrecognised kind token the hub is as it was before
  the call: the store, the registry, the observers, the scheduled tasks, the triggers and
  the console are all unchanged.
\<close>

theorem addDevice_unknown_kind_atomic:
  assumes "type \<notin> {''light'', ''thermostat'', ''door''}"
  shows "snd (addDevice type i s) = s"
  using assms by (simp add: createDevice_def addDevice_def)

text \<open>The token \<open>fan\<close> on the hub with three devices.\<close>

theorem addDevice_unknown_kind_atomic_witness:
  "''fan'' \<notin> {''light'', ''thermostat'', ''door''}
   \<and> snd (addDevice ''fan'' (IdNum 4) three_devices) = three_devices"
  using addDevice_unknown_kind_atomic [of "''fan''" "IdNum 4" three_devices] by simp

subsection \<open>Door locks\<close>

text \<open>
  C3, as the claim states it, fails: a \<open>DoorLock\<close> inherits \<open>turnOn\<close> and \<open>turnOff\<close> from
  \<open>SmartDevice\<close> unchanged, so \<open>addDevice("door", 3)\<close> followed by \<open>turnOn(3)\<close> leaves the
  door with status \<open>on\<close>.
\<close>

theorem door_turned_on:
  "klass (heap (run_all [Hub (AddDevice ''door'' (IdNum 3)), Hub (TurnOn (IdNum 3))]
                  SmartHomeSystem_new) ! 0) = DoorLock
   \<and> status (heap (run_all [Hub (AddDevice ''door'' (IdNum 3)), Hub (TurnOn (IdNum 3))]
                  SmartHomeSystem_new) ! 0) = ''on''
   \<and> ''on'' \<notin> {''locked'', ''unlocked''}"
  by code_simp

lemma exec_hub_door:
  assumes "door_status_ok r s" and "switch_target (Hub c) s \<noteq> Some r"
  shows "door_status_ok r (snd (exec_hub c s))"
proof (cases c)
  case (AddDevice type i)
  then show ?thesis using assms
    by (simp add: addDevice_def addObserver_def door_status_ok_def Let_def nth_append
        split: sum.splits)
next
  case (TurnOn i)
  then show ?thesis using assms
    by (auto simp: turnOn_def door_status_ok_def Let_def split: option.splits)
next
  case (TurnOff i)
  then show ?thesis using assms
    by (auto simp: turnOff_def door_status_ok_def Let_def split: option.splits)
next
  case (SetSchedule i tm cmd)
  then show ?thesis using assms
    by (simp add: setSchedule_def Scheduler_setSchedule_def door_status_ok_def
        split: option.splits)
next
  case (AddTrigger c a)
  then show ?thesis using assms by (simp add: addTrigger_def door_status_ok_def)
next
  case CheckTriggers
  then show ?thesis using assms
    by (simp add: checkTriggers_def door_status_ok_def split: option.splits)
next
  case GetStatusReport
  then show ?thesis using assms by simp
next
  case GetSchedule
  then show ?thesis using assms by simp
next
  case (AddObserver q)
  then show ?thesis using assms by (simp add: addObserver_def door_status_ok_def)
next
  case (RemoveObserver q)
  then show ?thesis using assms by (simp add: removeObserver_def door_status_ok_def)
next
  case (Notify data)
  then show ?thesis using assms by simp
qed

lemma exec_dev_door:
  assumes "klass d = DoorLock" and "status d \<in> {''locked'', ''unlocked''}"
    and "c \<notin> {DevTurnOn, DevTurnOff, ProxyTurnOn, ProxyTurnOff}"
    and "exec_dev c d = (e, d1, out)"
  shows "klass d1 = DoorLock \<and> status d1 \<in> {''locked'', ''unlocked''}"
  using assms by (cases c) (auto simp: lock_def unlock_def)

lemma switch_target_self:
  "switch_target (Dev r c) s \<noteq> Some r
   \<Longrightarrow> c \<notin> {DevTurnOn, DevTurnOff, ProxyTurnOn, ProxyTurnOff}"
  by (cases c) simp_all

lemma exec_door:
  assumes "door_status_ok r s" and "switch_target c s \<noteq> Some r"
  shows "door_status_ok r (snd (exec c s))"
proof (cases c)
  case (Hub h)
  then show ?thesis using assms exec_hub_door by simp
next
  case (Dev q dc)
  show ?thesis
  proof (cases "q = r")
    case True
    obtain e d1 out where ed: "exec_dev dc (heap s ! r) = (e, d1, out)"
      by (cases "exec_dev dc (heap s ! r)")
    have "dc \<notin> {DevTurnOn, DevTurnOff, ProxyTurnOn, ProxyTurnOff}"
      using assms(2) Dev True switch_target_self by simp
    then have "klass d1 = DoorLock \<and> status d1 \<in> {''locked'', ''unlocked''}"
      using exec_dev_door [OF _ _ _ ed] assms(1) by (simp add: door_status_ok_def)
    then show ?thesis using Dev True ed assms(1) by (simp add: door_status_ok_def)
  next
    case False
    then show ?thesis using Dev assms(1)
      by (simp add: door_status_ok_def split: prod.splits)
  qed
qed

lemma run_all_door:
  "door_status_ok r s \<Longrightarrow> spares r cs s \<Longrightarrow> door_status_ok r (run_all cs s)"
  by (induction cs arbitrary: s) (simp_all add: exec_door)

text \<open>
  C3, amended. A new \<open>DoorLock\<close> has status \<open>locked\<close>, and so has the device that
  \<open>addDevice("door", id)\<close> appends to the registry. From then on the status of a door lock
  stays \<open>locked\<close> or \<open>unlocked\<close> through every sequence of hub calls, device calls and
  proxy calls in which no \<open>turnOn\<close> or \<open>turnOff\<close> is applied to that door lock, whether
  the calls throw or not. \<open>turnOn\<close> and \<open>turnOff\<close> themselves set the status of any
  device, a door lock included, to \<open>on\<close> and \<open>off\<close>.
\<close>

theorem door_status_locked_or_unlocked:
  "status (DoorLock_new i) = ''locked''
   \<and> fst (addDevice ''door'' i s) = None
   \<and> devices (snd (addDevice ''door'' i s)) = devices s @ [length (heap s)]
   \<and> klass (heap (snd (addDevice ''door'' i s)) ! length (heap s)) = DoorLock
   \<and> status (heap (snd (addDevice ''door'' i s)) ! length (heap s)) = ''locked''
   \<and> (door_status_ok r s \<and> spares r cs s \<longrightarrow> door_status_ok r (run_all cs s))
   \<and> status (SmartDevice_turnOn d) = ''on''
   \<and> status (SmartDevice_turnOff d) = ''off''"
  by (simp add: addDevice_door run_all_door DoorLock_new_def SmartDevice_new_def
      SmartDevice_turnOn_def SmartDevice_turnOff_def)

text \<open>
  The door of the hub with three devices, through calls that unlock and lock it, switch
  the light on, try a method it does not have and switch off a device that does not exist.
\<close>

theorem door_status_locked_or_unlocked_witness:
  "door_status_ok 2 three_devices
   \<and> spares 2 [Dev 2 DevUnlock, Hub (TurnOn (IdNum 1)), Dev 2 (DevSetTemperature 5),
               Hub (TurnOff (IdNum 8)), Dev 2 DevLock, Dev 2 DevUnlock] three_devices
   \<and> door_status_ok 2
       (run_all [Dev 2 DevUnlock, Hub (TurnOn (IdNum 1)), Dev 2 (DevSetTemperature 5),
                 Hub (TurnOff (IdNum 8)), Dev 2 DevLock, Dev 2 DevUnlock] three_devices)
   \<and> status (heap (run_all [Dev 2 DevUnlock, Hub (TurnOn (IdNum 1)),
                 Dev 2 (DevSetTemperature 5), Hub (TurnOff (IdNum 8)), Dev 2 DevLock,
                 Dev 2 DevUnlock] three_devices) ! 2)
       = ''unlocked''"
proof -
  have h: "door_status_ok 2 three_devices
   \<and> spares 2 [Dev 2 DevUnlock, Hub (TurnOn (IdNum 1)), Dev 2 (DevSetTemperature 5),
               Hub (TurnOff (IdNum 8)), Dev 2 DevLock, Dev 2 DevUnlock] three_devices"
    by code_simp
  have u: "status (heap (run_all [Dev 2 DevUnlock, Hub (TurnOn (IdNum 1)),
                 Dev 2 (DevSetTemperature 5), Hub (TurnOff (IdNum 8)), Dev 2 DevLock,
                 Dev 2 DevUnlock] three_devices) ! 2)
       = ''unlocked''"
    by code_simp
  show ?thesis
    using h u door_status_locked_or_unlocked [of "IdNum 3" three_devices 2
        "[Dev 2 DevUnlock, Hub (TurnOn (IdNum 1)), Dev 2 (DevSetTemperature 5),
          Hub (TurnOff (IdNum 8)), Dev 2 DevLock, Dev 2 DevUnlock]"]
    by blast
qed

subsection \<open>Rule evaluation\<close>

text \<open>
  C4. Against a thermostat at 80 degrees the single rule \<open>temperature > 75\<close> with action
  \<open>turnOff(1)\<close> is reported as fired (one line is printed for it); against a thermostat
  at 70 degrees it is not.
\<close>

theorem evaluate_fires_at_80_not_at_70:
  "Automation_checkTriggers (Thermostat_new i 80)
       [\<lparr>condition = ''temperature > 75'', action = ''turnOff(1)''\<rparr>]
     = [''Trigger met: temperature > 75. Executing: turnOff(1)'']
   \<and> Automation_checkTriggers (Thermostat_new i 70)
       [\<lparr>condition = ''temperature > 75'', action = ''turnOff(1)''\<rparr>] = []"
  by (simp add: trigger_met_def trigger_line_def Thermostat_new_def SmartDevice_new_def
      numeral_2_eq_2 parseInt_def isStrWhiteSpaceChar_def radix_digit_def digit_value_def
      radix_value_def)

text \<open>
  C6, as the claim states it, fails for conditions of more than three tokens: the
  destructuring keeps the first three pieces and drops the rest, so the four-token
  condition \<open>temperature > 75 now\<close> fires against a thermostat at 80 degrees. (The pieces
  are separated by single spaces only, so any splitting on white space gives four tokens
  as well.)
\<close>

theorem four_token_condition_fires:
  "length (split_space ''temperature > 75 now'') = 4
   \<and> Automation_checkTriggers (Thermostat_new (IdNum 2) 80)
       [\<lparr>condition = ''temperature > 75 now'', action = ''turnOff(1)''\<rparr>]
     = [''Trigger met: temperature > 75 now. Executing: turnOff(1)'']"
  by code_simp

lemma trigger_met_too_short:
  assumes "length (split_space (condition t)) < 3"
  shows "\<not> trigger_met d t"
proof -
  have "element (split_space (condition t)) 2 = None
        \<or> element (split_space (condition t)) 1 = None"
    using assms by (auto simp add: element_nth)
  then show ?thesis
    by (cases "temperature d") (auto simp add: trigger_met_def Let_def parseInt_undefined)
qed

lemma trigger_met_first_three:
  assumes "take 3 (split_space (condition t)) = take 3 (split_space (condition t'))"
  shows "trigger_met d t = trigger_met d t'"
proof -
  have "element (split_space (condition t)) n = element (split_space (condition t')) n"
    if "n < 3" for n
    using element_take [OF that, of "split_space (condition t)"]
      element_take [OF that, of "split_space (condition t')"] assms by simp
  then show ?thesis by (simp add: trigger_met_def Let_def)
qed

text \<open>
  C6, amended. A rule whose condition splits at single spaces into fewer than three
  pieces is skipped, in every context: it prints nothing and raises nothing. A rule with
  more than three pieces is not skipped: whether it fires is decided by its first three
  pieces alone, so it fires exactly when the rule made of those three would.
\<close>

theorem short_condition_skipped_long_one_cut:
  "(length (split_space (condition t)) < 3 \<longrightarrow> Automation_checkTriggers d [t] = [])
   \<and> (take 3 (split_space (condition t)) = take 3 (split_space (condition t'))
        \<longrightarrow> trigger_met d t = trigger_met d t')"
  using trigger_met_too_short [of t d] trigger_met_first_three [of t t' d] by simp

text \<open>
  The two-piece condition \<open>temperature >\<close>, and the four-piece condition above next to
  its first three pieces, against a thermostat at 80 degrees.
\<close>

theorem short_condition_skipped_long_one_cut_witness:
  "length (split_space (condition \<lparr>condition = ''temperature >'', action = ''turnOff(1)''\<rparr>)) < 3
   \<and> Automation_checkTriggers (Thermostat_new (IdNum 2) 80)
       [\<lparr>condition = ''temperature >'', action = ''turnOff(1)''\<rparr>] = []
   \<and> take 3 (split_space (condition \<lparr>condition = ''temperature > 75 now'', action = ''a''\<rparr>))
       = take 3 (split_space (condition \<lparr>condition = ''temperature > 75'', action = ''b''\<rparr>))
   \<and> trigger_met (Thermostat_new (IdNum 2) 80)
         \<lparr>condition = ''temperature > 75 now'', action = ''a''\<rparr>
       = trigger_met (Thermostat_new (IdNum 2) 80)
           \<lparr>condition = ''temperature > 75'', action = ''b''\<rparr>"
proof -
  have h1: "length (split_space
      (condition \<lparr>condition = ''temperature >'', action = ''turnOff(1)''\<rparr>)) < 3"
    by simp
  have h2: "take 3 (split_space (condition \<lparr>condition = ''temperature > 75 now'', action = ''a''\<rparr>))
       = take 3 (split_space (condition \<lparr>condition = ''temperature > 75'', action = ''b''\<rparr>))"
    by (simp add: numeral_3_eq_3)
  show ?thesis
    using h1 h2
      short_condition_skipped_long_one_cut
        [of "\<lparr>condition = ''temperature >'', action = ''turnOff(1)''\<rparr>"
            "Thermostat_new (IdNum 2) 80"]
      short_condition_skipped_long_one_cut
        [of "\<lparr>condition = ''temperature > 75 now'', action = ''a''\<rparr>"
            "Thermostat_new (IdNum 2) 80" "\<lparr>condition = ''temperature > 75'', action = ''b''\<rparr>"]
    by blast
qed










subsection \<open>Lookups in the hub\<close>

text \<open>
  C5. When no registered device has the identifier, \<open>turnOn\<close> raises nothing and returns
  the very state it was given: registry, observers and every device are untouched, and no
  observer was notified (a notification would have thrown).
\<close>

theorem turnOn_unknown_id_no_effect:
  assumes "\<forall>r \<in> set (devices s). dev_id (heap s ! r) \<noteq> i"
  shows "turnOn i s = (None, s)"
  using find_by_id_absent [OF assms] by (simp add: turnOn_def)

text \<open>Identifier 9 on the hub with devices 1, 2 and 3.\<close>

theorem turnOn_unknown_id_no_effect_witness:
  "map (\<lambda>r. dev_id (heap three_devices ! r)) (devices three_devices)
     = [IdNum 1, IdNum 2, IdNum 3]
   \<and> turnOn (IdNum 9) three_devices = (None, three_devices)"
proof -
  have ids: "map (\<lambda>r. dev_id (heap three_devices ! r)) (devices three_devices)
     = [IdNum 1, IdNum 2, IdNum 3]"
    by code_simp
  have h: "\<forall>r \<in> set (devices three_devices). dev_id (heap three_devices ! r) \<noteq> IdNum 9"
    by code_simp
  show ?thesis by (rule conjI [OF ids turnOn_unknown_id_no_effect [OF h]])
qed

text \<open>
  C8. \<open>checkTriggers\<close> evaluates the rules against the first device in registration
  order whose type is \<open>Thermostat\<close>, and against that one only: the lines it prints are
  those of the automation engine run on that device. When the registry holds no
  thermostat it does nothing: no error, and the state is returned unchanged.
\<close>

theorem checkTriggers_first_thermostat_only:
  "(devices s = pre @ r # post
      \<and> (\<forall>p \<in> set pre. dev_type (heap s ! p) \<noteq> ''Thermostat'')
      \<and> dev_type (heap s ! r) = ''Thermostat''
     \<longrightarrow> checkTriggers s
           = (None, s\<lparr>console := console s
                @ Automation_checkTriggers (heap s ! r) (triggers s)\<rparr>))
   \<and> ((\<forall>p \<in> set (devices s). dev_type (heap s ! p) \<noteq> ''Thermostat'')
     \<longrightarrow> checkTriggers s = (None, s))"
proof (intro conjI impI)
  assume a: "devices s = pre @ r # post
      \<and> (\<forall>p \<in> set pre. dev_type (heap s ! p) \<noteq> ''Thermostat'')
      \<and> dev_type (heap s ! r) = ''Thermostat''"
  then have "find_thermostat s = Some r"
    unfolding find_thermostat_def
    using find_first_match [of pre "\<lambda>p. dev_type (heap s ! p) = ''Thermostat''" r post]
    by simp
  then show "checkTriggers s
     = (None, s\<lparr>console := console s @ Automation_checkTriggers (heap s ! r) (triggers s)\<rparr>)"
    by (simp add: checkTriggers_def)
next
  assume "\<forall>p \<in> set (devices s). dev_type (heap s ! p) \<noteq> ''Thermostat''"
  then have "find_thermostat s = None"
    by (simp add: find_thermostat_def find_None_iff)
  then show "checkTriggers s = (None, s)"
    by (simp add: checkTriggers_def)
qed

text \<open>
  Two thermostats and a rule. With the one at 90 degrees registered first the rule is
  printed; with the one at 60 degrees first nothing is printed, although the second would
  fire it. In the hub with the rule and no thermostat nothing happens.
\<close>

theorem checkTriggers_first_thermostat_only_witness:
  "devices warm_first = [0] @ 1 # [2]
   \<and> map (\<lambda>r. dev_type (heap warm_first ! r)) (devices warm_first)
       = [''Light'', ''Thermostat'', ''Thermostat'']
   \<and> map (\<lambda>r. temperature (heap warm_first ! r)) (devices warm_first)
       = [None, Some 90, Some 60]
   \<and> checkTriggers warm_first
       = (None, warm_first\<lparr>console := console warm_first
            @ [''Trigger met: temperature > 75. Executing: turnOff(1)'']\<rparr>)
   \<and> devices cool_first = [0] @ 1 # [2]
   \<and> map (\<lambda>r. temperature (heap cool_first ! r)) (devices cool_first)
       = [None, Some 60, Some 90]
   \<and> length (triggers cool_first) = 1
   \<and> checkTriggers cool_first = (None, cool_first\<lparr>console := console cool_first @ []\<rparr>)
   \<and> map (\<lambda>r. dev_type (heap no_thermostat ! r)) (devices no_thermostat)
       = [''Light'', ''Door'']
   \<and> length (triggers no_thermostat) = 1
   \<and> checkTriggers no_thermostat = (None, no_thermostat)"
proof -
  have shape: "devices warm_first = [0] @ 1 # [2]
   \<and> map (\<lambda>r. dev_type (heap warm_first ! r)) (devices warm_first)
       = [''Light'', ''Thermostat'', ''Thermostat'']
   \<and> map (\<lambda>r. temperature (heap warm_first ! r)) (devices warm_first)
       = [None, Some 90, Some 60]
   \<and> devices cool_first = [0] @ 1 # [2]
   \<and> map (\<lambda>r. temperature (heap cool_first ! r)) (devices cool_first)
       = [None, Some 60, Some 90]
   \<and> length (triggers cool_first) = 1
   \<and> map (\<lambda>r. dev_type (heap no_thermostat ! r)) (devices no_thermostat)
       = [''Light'', ''Door'']
   \<and> length (triggers no_thermostat) = 1"
    by code_simp
  have w: "devices warm_first = [0] @ 1 # [2]
   \<and> (\<forall>p \<in> set [0]. dev_type (heap warm_first ! p) \<noteq> ''Thermostat'')
   \<and> dev_type (heap warm_first ! 1) = ''Thermostat''"
    by code_simp
  have c: "devices cool_first = [0] @ 1 # [2]
   \<and> (\<forall>p \<in> set [0]. dev_type (heap cool_first ! p) \<noteq> ''Thermostat'')
   \<and> dev_type (heap cool_first ! 1) = ''Thermostat''"
    by code_simp
  have n: "\<forall>p \<in> set (devices no_thermostat). dev_type (heap no_thermostat ! p) \<noteq> ''Thermostat''"
    by code_simp
  have wl: "Automation_checkTriggers (heap warm_first ! 1) (triggers warm_first)
      = [''Trigger met: temperature > 75. Executing: turnOff(1)'']"
    by code_simp
  have cl: "Automation_checkTriggers (heap cool_first ! 1) (triggers cool_first) = []"
    by code_simp
  have rw: "checkTriggers warm_first
      = (None, warm_first\<lparr>console := console warm_first
           @ Automation_checkTriggers (heap warm_first ! 1) (triggers warm_first)\<rparr>)"
    using w checkTriggers_first_thermostat_only [of warm_first "[0]" 1 "[2]"] by blast
  have rc: "checkTriggers cool_first
      = (None, cool_first\<lparr>console := console cool_first
           @ Automation_checkTriggers (heap cool_first ! 1) (triggers cool_first)\<rparr>)"
    using c checkTriggers_first_thermostat_only [of cool_first "[0]" 1 "[2]"] by blast
  have rn: "checkTriggers no_thermostat = (None, no_thermostat)"
    using n checkTriggers_first_thermostat_only [of no_thermostat] by blast
  show ?thesis
    using shape rw [unfolded wl] rc [unfolded cl] rn by blast
qed

subsection \<open>Observers and registry\<close>

text \<open>
  C9, as the claim states it, fails: the hub extends \<open>Subject\<close>, so \<open>addObserver\<close> and
  \<open>removeObserver\<close> are public methods of the hub too, and they change the observers
  alone. After \<open>addDevice("light", 1)\<close>, removing the light as an observer leaves a
  registered device that is no listener, and adding it once more makes it a listener
  twice.
\<close>

theorem observer_removed_by_hand:
  "devices (run_all [Hub (AddDevice ''light'' (IdNum 1)), Hub (RemoveObserver 0)]
              SmartHomeSystem_new) = [0]
   \<and> observers (run_all [Hub (AddDevice ''light'' (IdNum 1)), Hub (RemoveObserver 0)]
              SmartHomeSystem_new) = []
   \<and> devices (run_all [Hub (AddDevice ''light'' (IdNum 1)), Hub (AddObserver 0)]
              SmartHomeSystem_new) = [0]
   \<and> observers (run_all [Hub (AddDevice ''light'' (IdNum 1)), Hub (AddObserver 0)]
              SmartHomeSystem_new) = [0, 0]"
  by code_simp

lemma exec_hub_keeps_listeners:
  assumes "observers s = devices s" and "\<not> observer_call (Hub c)"
  shows "observers (snd (exec_hub c s)) = devices (snd (exec_hub c s))"
  using assms
  by (cases c)
     (simp_all add: addDevice_def addObserver_def turnOn_def turnOff_def setSchedule_def
        Scheduler_setSchedule_def addTrigger_def checkTriggers_def Let_def
        split: sum.splits option.splits)

lemma exec_keeps_listeners:
  assumes "observers s = devices s" and "\<not> observer_call c"
  shows "observers (snd (exec c s)) = devices (snd (exec c s))"
  using assms by (cases c) (simp_all add: exec_hub_keeps_listeners split: prod.splits)

lemma run_all_keeps_listeners:
  "observers s = devices s \<Longrightarrow> list_all (\<lambda>c. \<not> observer_call c) cs
   \<Longrightarrow> observers (run_all cs s) = devices (run_all cs s)"
  by (induction cs arbitrary: s) (simp_all add: exec_keeps_listeners)

lemma run_script_keeps_listeners:
  "observers s = devices s \<Longrightarrow> list_all (\<lambda>c. \<not> observer_call c) cs \<Longrightarrow>
   observers (snd (run_script cs s)) = devices (snd (run_script cs s))"
proof (induction cs arbitrary: s)
  case Nil
  then show ?case by simp
next
  case (Cons c cs)
  obtain e s1 where ex: "exec c s = (e, s1)" by (cases "exec c s")
  have nc: "\<not> observer_call c" and rest: "list_all (\<lambda>c. \<not> observer_call c) cs"
    using Cons.prems(2) by simp_all
  have s1: "observers s1 = devices s1"
    using exec_keeps_listeners [OF Cons.prems(1) nc] ex by simp
  show ?case
  proof (cases e)
    case None
    then show ?thesis using ex Cons.IH [OF s1 rest] by simp
  next
    case (Some a)
    then show ?thesis using ex s1 by simp
  qed
qed

text \<open>
  C9, amended. In every hub reached from a fresh one through \<open>addDevice\<close>, \<open>turnOn\<close>,
  \<open>turnOff\<close>, \<open>setSchedule\<close>, \<open>addTrigger\<close>, \<open>checkTriggers\<close>, the two reports and
  \<open>notify\<close>, with calls on the devices and their proxies in between, the list of
  observers is the registry: the same references in the same order. This holds whether
  the caller catches the exceptions and goes on or the run stops at the first one. Direct
  calls of the inherited \<open>addObserver\<close> and \<open>removeObserver\<close> are left out: they change
  the observers and not the registry.
\<close>

theorem listeners_equal_registry:
  assumes "list_all (\<lambda>c. \<not> observer_call c) cs"
  shows "observers (run_all cs SmartHomeSystem_new) = devices (run_all cs SmartHomeSystem_new)
   \<and> observers (snd (run_script cs SmartHomeSystem_new))
       = devices (snd (run_script cs SmartHomeSystem_new))"
  using assms
  by (simp add: run_all_keeps_listeners run_script_keeps_listeners SmartHomeSystem_new_def)

text \<open>
  The example, followed by a \<open>notify\<close>, an \<open>addDevice\<close> that fails, a call on the door
  and a fourth device.
\<close>

theorem listeners_equal_registry_witness:
  "list_all (\<lambda>c. \<not> observer_call c)
     (example_usage @ [Hub (Notify \<lparr>ev_action = ''turnOn'', deviceId = IdNum 1\<rparr>),
        Hub (AddDevice ''fan'' (IdNum 4)), Dev 2 DevUnlock,
        Hub (AddDevice ''light'' (IdNum 5))])
   \<and> devices (run_all
       (example_usage @ [Hub (Notify \<lparr>ev_action = ''turnOn'', deviceId = IdNum 1\<rparr>),
          Hub (AddDevice ''fan'' (IdNum 4)), Dev 2 DevUnlock,
          Hub (AddDevice ''light'' (IdNum 5))]) SmartHomeSystem_new) = [0, 1, 2, 3]
   \<and> observers (run_all
       (example_usage @ [Hub (Notify \<lparr>ev_action = ''turnOn'', deviceId = IdNum 1\<rparr>),
          Hub (AddDevice ''fan'' (IdNum 4)), Dev 2 DevUnlock,
          Hub (AddDevice ''light'' (IdNum 5))]) SmartHomeSystem_new)
     = devices (run_all
       (example_usage @ [Hub (Notify \<lparr>ev_action = ''turnOn'', deviceId = IdNum 1\<rparr>),
          Hub (AddDevice ''fan'' (IdNum 4)), Dev 2 DevUnlock,
          Hub (AddDevice ''light'' (IdNum 5))]) SmartHomeSystem_new)
   \<and> observers (snd (run_script
       (example_usage @ [Hub (Notify \<lparr>ev_action = ''turnOn'', deviceId = IdNum 1\<rparr>),
          Hub (AddDevice ''fan'' (IdNum 4)), Dev 2 DevUnlock,
          Hub (AddDevice ''light'' (IdNum 5))]) SmartHomeSystem_new))
     = devices (snd (run_script
       (example_usage @ [Hub (Notify \<lparr>ev_action = ''turnOn'', deviceId = IdNum 1\<rparr>),
          Hub (AddDevice ''fan'' (IdNum 4)), Dev 2 DevUnlock,
          Hub (AddDevice ''light'' (IdNum 5))]) SmartHomeSystem_new))"
proof -
  let ?cs = "example_usage @ [Hub (Notify \<lparr>ev_action = ''turnOn'', deviceId = IdNum 1\<rparr>),
        Hub (AddDevice ''fan'' (IdNum 4)), Dev 2 DevUnlock,
        Hub (AddDevice ''light'' (IdNum 5))]"
  have h: "list_all (\<lambda>c. \<not> observer_call c) ?cs" by code_simp
  have d: "devices (run_all ?cs SmartHomeSystem_new) = [0, 1, 2, 3]" by code_simp
  show ?thesis
    using h d listeners_equal_registry [OF h] by blast
qed

end
